theory Spec2Isabelle
  imports Complex_Main "HOL-Library.Multiset"
begin

section \<open>The shopping-assistant front end\<close>

text \<open>
  The React components of the front end (\<^verbatim>\<open>ShoppingInput.jsx\<close>, \<^verbatim>\<open>PhotoUpload.jsx\<close> with
  the voice input, \<^verbatim>\<open>ProductResults.jsx\<close> and \<^verbatim>\<open>AnalysisResults.jsx\<close>, and the two
  \<^verbatim>\<open>QuanBuyApp\<close> controllers) as functions on explicit state. A \<^verbatim>\<open>useState\<close> cell is a
  record field, an event handler takes the state and returns the new one together with
  what it did to the outside (alerts, callbacks, the request it posts), and what the
  browser answers (the response of \<^verbatim>\<open>fetch\<close>, the event of a \<^verbatim>\<open>FileReader\<close>, the host name a
  URL parses to) is an argument of the handler.

  Strings are \<^typ>\<open>string\<close>: a \<^typ>\<open>char\<close> stands for a UTF-16 code unit below 256, so text
  outside Latin-1 is not covered. Numbers are rationals: every finite double is one, and
  the functions below only compare numbers or take the sign of a difference, which the
  rounded operations of doubles give exactly.
\<close>

subsection \<open>Strings\<close>

definition startsWith :: "string \<Rightarrow> string \<Rightarrow> bool" where
  \<comment> \<open>\<^verbatim>\<open>s.startsWith(p)\<close>\<close>
  "startsWith p s = (take (length p) s = p)"

definition isWhiteSpace :: "char \<Rightarrow> bool" where
  \<comment> \<open>the white space and line terminators of ECMAScript below U+0100:
      TAB, LF, VT, FF, CR, SP and NBSP\<close>
  "isWhiteSpace c = ((of_char c :: nat) \<in> {9, 10, 11, 12, 13, 32, 160})"

definition trim :: "string \<Rightarrow> string" where
  \<comment> \<open>\<^verbatim>\<open>s.trim()\<close>\<close>
  "trim s = rev (dropWhile isWhiteSpace (rev (dropWhile isWhiteSpace s)))"

fun replace_str :: "string \<Rightarrow> string \<Rightarrow> string \<Rightarrow> string" where
  \<comment> \<open>\<^verbatim>\<open>s.replace(p, r)\<close> with a string pattern: the first occurrence only, wherever it is\<close>
  "replace_str p r [] = (if p = [] then r else [])"
| "replace_str p r (c # cs) =
     (if startsWith p (c # cs) then r @ drop (length p) (c # cs)
      else c # replace_str p r cs)"

definition toUpperCase_char :: "char \<Rightarrow> char" where
  \<comment> \<open>on the letters a to z; a host name is ASCII\<close>
  "toUpperCase_char c =
     (let n = (of_char c :: nat) in if 97 \<le> n \<and> n \<le> 122 then char_of (n - 32) else c)"

definition toUpperCase :: "string \<Rightarrow> string" where
  "toUpperCase s = map toUpperCase_char s"

fun split_on :: "char \<Rightarrow> string \<Rightarrow> string list" where
  \<comment> \<open>\<^verbatim>\<open>s.split(d)\<close> for a separator of one character\<close>
  "split_on d [] = [[]]"
| "split_on d (c # cs) =
     (if c = d then [] # split_on d cs
      else (case split_on d cs of [] \<Rightarrow> [[c]] | x # xs \<Rightarrow> (c # x) # xs))"

definition at_index :: "'a list \<Rightarrow> nat \<Rightarrow> 'a option" where
  \<comment> \<open>\<^verbatim>\<open>xs[i]\<close>: \<^verbatim>\<open>undefined\<close> (here \<open>None\<close>) out of range\<close>
  "at_index xs i = (if i < length xs then Some (xs ! i) else None)"

subsection \<open>ShoppingInput: stores, dropped URLs, the search button\<close>

record store_entry =
  name :: string
  url :: string
  icon :: "nat list"  \<comment> \<open>the glyph, as Unicode code points\<close>
  custom :: bool  \<comment> \<open>set on dropped stores only\<close>

definition popularStores :: "store_entry list" where
  "popularStores =
    [\<lparr>name = ''Amazon'', url = ''amazon.com'', icon = [0x1F4E6], custom = False\<rparr>,
     \<lparr>name = ''Target'', url = ''target.com'', icon = [0x1F3AF], custom = False\<rparr>,
     \<lparr>name = ''Walmart'', url = ''walmart.com'', icon = [0x1F6D2], custom = False\<rparr>,
     \<lparr>name = ''Best Buy'', url = ''bestbuy.com'', icon = [0x1F50C], custom = False\<rparr>,
     \<lparr>name = ''Nordstrom'', url = ''nordstrom.com'', icon = [0x1F457], custom = False\<rparr>,
     \<lparr>name = ''Home Depot'', url = ''homedepot.com'', icon = [0x1F528], custom = False\<rparr>,
     \<lparr>name = ''Wayfair'', url = ''wayfair.com'', icon = [0x1F3E0], custom = False\<rparr>,
     \<lparr>name = ''Etsy'', url = ''etsy.com'', icon = [0x1F3A8], custom = False\<rparr>]"

definition handleStoreToggle :: "store_entry \<Rightarrow> store_entry list \<Rightarrow> store_entry list" where
  \<comment> \<open>the updater handed to \<^verbatim>\<open>setSelectedStores\<close>; \<^verbatim>\<open>find\<close> gives an object, which is truthy,
      or \<^verbatim>\<open>undefined\<close>\<close>
  "handleStoreToggle st prev =
     (case find (\<lambda>s. url s = url st) prev of
        Some _ \<Rightarrow> filter (\<lambda>s. url s \<noteq> url st) prev
      | None \<Rightarrow> prev @ [st])"

datatype js_error = TypeError

definition handleUrlDrop ::
  "(string \<Rightarrow> string option) \<Rightarrow> string \<Rightarrow> store_entry list \<Rightarrow> js_error + store_entry list" where
  \<comment> \<open>\<open>hostname u\<close> is \<^verbatim>\<open>new URL(u).hostname\<close>, the browser's URL parser: \<open>None\<close> when the
      constructor throws its \<^verbatim>\<open>TypeError\<close>, which nothing in the handler catches. The second
      argument is the text of the drop, the third the list \<^verbatim>\<open>draggedUrls\<close>; the result is
      the list after the handler.\<close>
  "handleUrlDrop hostname u draggedUrls =
     (if u \<noteq> [] \<and> startsWith ''http'' u then
        (case hostname u of
           None \<Rightarrow> Inl TypeError
         | Some h \<Rightarrow>
             (let domain = replace_str ''www.'' [] h;
                  newStore = \<lparr>name = toUpperCase (take 1 domain) @ drop 1 domain,
                              url = domain, icon = [0x1F310], custom = True\<rparr>
              in if find (\<lambda>s. url s = domain) draggedUrls = None
                 then Inr (draggedUrls @ [newStore])
                 else Inr draggedUrls))
      else Inr draggedUrls)"

record shopping_input =
  searchType :: string  \<comment> \<open>\<^verbatim>\<open>'photo'\<close>, \<^verbatim>\<open>'prompt'\<close> or \<^verbatim>\<open>'both'\<close>\<close>
  promptText :: string
  selectedStores :: "store_entry list"
  draggedUrls :: "store_entry list"

record search_data =
  sd_type :: string
  sd_prompt :: string
  sd_stores :: "store_entry list"

definition handleSearch :: "shopping_input \<Rightarrow> string + search_data" where
  \<comment> \<open>\<open>Inl m\<close>: \<^verbatim>\<open>alert(m)\<close> and return; \<open>Inr d\<close>: \<^verbatim>\<open>onSearchRequest(d)\<close>\<close>
  "handleSearch s =
     (let allSelectedStores = selectedStores s @ draggedUrls s in
      if searchType s = ''prompt'' \<and> trim (promptText s) = []
      then Inl ''Please enter what you're looking for''
      else Inr \<lparr>sd_type = searchType s, sd_prompt = promptText s,
                sd_stores = allSelectedStores\<rparr>)"

definition removeCustomStore :: "store_entry \<Rightarrow> store_entry list \<Rightarrow> store_entry list" where
  "removeCustomStore storeToRemove prev = filter (\<lambda>s. url s \<noteq> url storeToRemove) prev"

subsection \<open>PhotoUpload: choosing a file\<close>

record file_info =
  file_name :: string
  file_type :: string  \<comment> \<open>the MIME type\<close>
  file_size :: nat  \<comment> \<open>bytes\<close>

record photo_data =
  photo_file :: file_info
  base64 :: "string option"  \<comment> \<open>\<^verbatim>\<open>result.split(',')[1]\<close>, which may be \<^verbatim>\<open>undefined\<close>\<close>
  preview :: string

datatype read_outcome =
    Loaded string  \<comment> \<open>the \<^verbatim>\<open>load\<close> event, with the data URL\<close>
  | ReadError  \<comment> \<open>the \<^verbatim>\<open>error\<close> event, for which the reader has no handler\<close>
  | ReaderThrows string  \<comment> \<open>an exception of the reader, caught by the handler\<close>

datatype upload_effect =
    UploadAlert string
  | UploadConsoleError string string
  | OnPhotoSelect photo_data

definition handleFileSelect ::
  "read_outcome \<Rightarrow> file_info \<Rightarrow> bool \<Rightarrow> bool \<times> upload_effect list" where
  \<comment> \<open>the state is the cell \<^verbatim>\<open>uploading\<close>; the first argument is what the \<^verbatim>\<open>FileReader\<close>
      does with the file\<close>
  "handleFileSelect rd f uploading =
     (if \<not> startsWith ''image/'' (file_type f)
      then (uploading, [UploadAlert ''Please select an image file''])
      else if file_size f > 5 * 1024 * 1024
      then (uploading, [UploadAlert ''Image must be smaller than 5MB''])
      else (case rd of
              Loaded result \<Rightarrow>
                (False, [OnPhotoSelect \<lparr>photo_file = f,
                                         base64 = at_index (split_on CHR '','' result) 1,
                                         preview = result\<rparr>])
            | ReadError \<Rightarrow> (True, [])
            | ReaderThrows e \<Rightarrow>
                (False, [UploadConsoleError ''Error reading file:'' e,
                         UploadAlert ''Error reading file. Please try again.''])))"

subsection \<open>ProductResults: the views, the filter and the sort\<close>

record product =
  product_name :: string
  price :: string
  original_price :: "string option"
  discount :: "string option"
  store :: string
  confidence :: rat
  rating :: "rat option"
  review_count :: "nat option"
  availability :: "string option"
  shipping :: "string option"
  product_url :: string
  buy_now_url :: "string option"
  image_url :: "string option"

record search_result =
  products :: "product list option"
  search_query :: "string option"
  total_found :: "nat option"
  stores_searched :: "nat option"
  error :: "string option"

definition isDigit :: "char \<Rightarrow> bool" where
  "isDigit c = (48 \<le> (of_char c :: nat) \<and> (of_char c :: nat) \<le> 57)"

definition strip_non_numeric :: "string \<Rightarrow> string" where
  \<comment> \<open>\<^verbatim>\<open>s.replace(/[^0-9.]/g, '')\<close>\<close>
  "strip_non_numeric s = filter (\<lambda>c. isDigit c \<or> c = CHR ''.'') s"

definition digits_value :: "string \<Rightarrow> nat" where
  "digits_value ds = foldl (\<lambda>a c. 10 * a + (of_char c - 48)) 0 ds"

definition parseFloat :: "(rat \<Rightarrow> rat) \<Rightarrow> string \<Rightarrow> rat option" where
  \<comment> \<open>\<^verbatim>\<open>parseFloat\<close> on a string of digits and dots, which is all the renderer gives it: the
      longest prefix that is a decimal literal, \<open>None\<close> for \<^verbatim>\<open>NaN\<close> when there is none.
      \<open>toDouble\<close> rounds the decimal to the double that stands for it.\<close>
  "parseFloat toDouble s =
     (let ip = takeWhile isDigit s;
          rest = dropWhile isDigit s;
          fp = (case rest of [] \<Rightarrow> []
                | c # r \<Rightarrow> if c = CHR ''.'' then takeWhile isDigit r else [])
      in if ip = [] \<and> fp = [] then None
         else Some (toDouble (of_nat (digits_value ip)
                              + of_nat (digits_value fp) / 10 ^ length fp)))"

definition price_number :: "(rat \<Rightarrow> rat) \<Rightarrow> product \<Rightarrow> rat option" where
  "price_number toDouble p = parseFloat toDouble (strip_non_numeric (price p))"

definition num_minus :: "rat option \<Rightarrow> rat option \<Rightarrow> rat option" where
  \<comment> \<open>a difference is \<^verbatim>\<open>NaN\<close> as soon as one side is\<close>
  "num_minus x y = (case (x, y) of (Some u, Some v) \<Rightarrow> Some (u - v) | _ \<Rightarrow> None)"

definition compare_products ::
  "(rat \<Rightarrow> rat) \<Rightarrow> (string \<Rightarrow> string \<Rightarrow> rat) \<Rightarrow> string \<Rightarrow> product \<Rightarrow> product \<Rightarrow> rat option" where
  \<comment> \<open>the comparator handed to \<^verbatim>\<open>sort\<close>; \<open>localeCompare\<close> is the collation of the browser's
      locale\<close>
  "compare_products toDouble localeCompare sortBy a b =
     (if sortBy = ''price_low''
      then num_minus (price_number toDouble a) (price_number toDouble b)
      else if sortBy = ''price_high''
      then num_minus (price_number toDouble b) (price_number toDouble a)
      else if sortBy = ''store''
      then Some (localeCompare (store a) (store b))
      else Some (confidence b - confidence a))"

definition sort_compare :: "('a \<Rightarrow> 'a \<Rightarrow> rat option) \<Rightarrow> 'a \<Rightarrow> 'a \<Rightarrow> rat" where
  \<comment> \<open>what \<^verbatim>\<open>sort\<close> makes of the comparator's answer: \<^verbatim>\<open>NaN\<close> counts as 0\<close>
  "sort_compare c x y = (case c x y of None \<Rightarrow> 0 | Some v \<Rightarrow> v)"

fun insert_sorted :: "('a \<Rightarrow> 'a \<Rightarrow> rat option) \<Rightarrow> 'a \<Rightarrow> 'a list \<Rightarrow> 'a list" where
  "insert_sorted c x [] = [x]"
| "insert_sorted c x (y # ys) =
     (if sort_compare c x y \<le> 0 then x # y # ys else y # insert_sorted c x ys)"

definition js_sort :: "('a \<Rightarrow> 'a \<Rightarrow> rat option) \<Rightarrow> 'a list \<Rightarrow> 'a list" where
  \<comment> \<open>\<^verbatim>\<open>Array.prototype.sort\<close> is stable, and with a consistent comparator its result is the
      one stable sorted arrangement, which this insertion sort computes. With an
      inconsistent comparator (a \<^verbatim>\<open>NaN\<close> among the differences) the order is the engine's
      own.\<close>
  "js_sort c xs = foldr (insert_sorted c) xs []"

definition filteredProducts ::
  "(rat \<Rightarrow> rat) \<Rightarrow> (string \<Rightarrow> string \<Rightarrow> rat) \<Rightarrow> string \<Rightarrow> string \<Rightarrow> product list \<Rightarrow> product list" where
  "filteredProducts toDouble localeCompare sortBy filterStore ps =
     js_sort (compare_products toDouble localeCompare sortBy)
       (filter (\<lambda>p. filterStore = ''all'' \<or> store p = filterStore) ps)"

datatype results_view =
    Loading
  | NoView  \<comment> \<open>\<^verbatim>\<open>return null\<close>: no request yet\<close>
  | ErrorPanel string  \<comment> \<open>with the retry button\<close>
  | ResultsGrid "product list"

definition ProductResults ::
  "(rat \<Rightarrow> rat) \<Rightarrow> (string \<Rightarrow> string \<Rightarrow> rat) \<Rightarrow> string \<Rightarrow> string
    \<Rightarrow> search_result option \<Rightarrow> bool \<Rightarrow> results_view" where
  "ProductResults toDouble localeCompare sortBy filterStore results isLoading =
     (if isLoading then Loading
      else (case results of
              None \<Rightarrow> NoView
            | Some r \<Rightarrow>
                (let grid = ResultsGrid
                       (filteredProducts toDouble localeCompare sortBy filterStore
                          (case products r of None \<Rightarrow> [] | Some ps \<Rightarrow> ps))
                 in case error r of
                      None \<Rightarrow> grid
                    | Some e \<Rightarrow> if e \<noteq> [] then ErrorPanel e else grid)))"

subsection \<open>The product-search controller\<close>

record request_body =
  search_type :: string
  user_id :: string
  stores :: "(string \<times> string) list"  \<comment> \<open>name and url\<close>
  image_base64 :: "string option"  \<comment> \<open>\<open>None\<close>: the JSON has no such field\<close>
  search_prompt :: "string option"

datatype 'r fetch_outcome =
    NetworkError string  \<comment> \<open>\<^verbatim>\<open>fetch\<close> rejects; the message of its exception\<close>
  | HttpResponse bool string "string + 'r"
      \<comment> \<open>\<^verbatim>\<open>response.ok\<close>, \<^verbatim>\<open>response.statusText\<close>, and \<^verbatim>\<open>response.json()\<close>: the value, or the
          message of the exception when the body does not parse\<close>

datatype 'b app_effect =
    Alert string
  | ConsoleError string string
  | Fetch string 'b  \<comment> \<open>a POST of the JSON of the body to the path\<close>

record quanbuy_app =
  photo :: "photo_data option"
  searchResults :: "search_result option"
  isSearching :: bool
  showPhotoUpload :: bool
  shoppingInput :: shopping_input  \<comment> \<open>the cells of the mounted \<^verbatim>\<open>ShoppingInput\<close>\<close>

definition handlePhotoSelect :: "photo_data \<Rightarrow> quanbuy_app \<Rightarrow> quanbuy_app" where
  "handlePhotoSelect photoData app = app\<lparr>photo := Some photoData\<rparr>"

definition error_result :: "string \<Rightarrow> search_result" where
  \<comment> \<open>\<^verbatim>\<open>{ error: error.message }\<close>\<close>
  "error_result m =
     \<lparr>products = None, search_query = None, total_found = None, stores_searched = None,
      error = Some m\<rparr>"

definition requestBody :: "photo_data option \<Rightarrow> search_data \<Rightarrow> request_body" where
  \<comment> \<open>a field set to \<^verbatim>\<open>undefined\<close> is left out by \<^verbatim>\<open>JSON.stringify\<close>\<close>
  "requestBody ph d =
     \<lparr>search_type = sd_type d,
      user_id = ''web-user'',
      stores = map (\<lambda>s. (name s, url s)) (sd_stores d),
      image_base64 =
        (case ph of
           None \<Rightarrow> None
         | Some p \<Rightarrow> if sd_type d = ''photo'' \<or> sd_type d = ''both'' then base64 p else None),
      search_prompt =
        (if sd_prompt d \<noteq> [] \<and> (sd_type d = ''prompt'' \<or> sd_type d = ''both'')
         then Some (sd_prompt d) else None)\<rparr>"

definition awaiting_search :: "quanbuy_app \<Rightarrow> quanbuy_app" where
  \<comment> \<open>the state while the request is in flight\<close>
  "awaiting_search app = app\<lparr>isSearching := True, searchResults := None\<rparr>"

definition settle_search ::
  "search_result fetch_outcome \<Rightarrow> quanbuy_app \<Rightarrow> quanbuy_app \<times> request_body app_effect list" where
  \<comment> \<open>what follows the \<^verbatim>\<open>await\<close>: the \<^verbatim>\<open>throw\<close>, the \<^verbatim>\<open>catch\<close> and the \<^verbatim>\<open>finally\<close>\<close>
  "settle_search net app =
     (let failed = (\<lambda>m. (app\<lparr>searchResults := Some (error_result m), isSearching := False\<rparr>,
                          [ConsoleError ''Search error:'' m]))
      in case net of
           NetworkError m \<Rightarrow> failed m
         | HttpResponse ok statusText js \<Rightarrow>
             if \<not> ok then failed (''Search failed: '' @ statusText)
             else (case js of
                     Inl m \<Rightarrow> failed m
                   | Inr results \<Rightarrow>
                       (app\<lparr>searchResults := Some results, isSearching := False\<rparr>, [])))"

definition handleSearchRequest ::
  "search_result fetch_outcome \<Rightarrow> search_data \<Rightarrow> quanbuy_app
     \<Rightarrow> quanbuy_app \<times> request_body app_effect list" where
  "handleSearchRequest net d app =
     (if sd_type d \<noteq> ''prompt'' \<and> photo app = None
      then (app, [Alert ''Please upload a photo for visual search''])
      else (let (app', effs) = settle_search net (awaiting_search app)
            in (app', Fetch ''/api/search-products'' (requestBody (photo app) d) # effs)))"

definition handleRetry :: "quanbuy_app \<Rightarrow> quanbuy_app" where
  "handleRetry app = app\<lparr>searchResults := None, photo := None, showPhotoUpload := True\<rparr>"

definition clickSearch ::
  "search_result fetch_outcome \<Rightarrow> quanbuy_app \<Rightarrow> quanbuy_app \<times> request_body app_effect list" where
  \<comment> \<open>the search button: \<^verbatim>\<open>handleSearch\<close> of the input, whose \<^verbatim>\<open>onSearchRequest\<close> is the
      controller's \<^verbatim>\<open>handleSearchRequest\<close>\<close>
  "clickSearch net app =
     (case handleSearch (shoppingInput app) of
        Inl m \<Rightarrow> (app, [Alert m])
      | Inr d \<Rightarrow> handleSearchRequest net d app)"

fun upload_callback :: "upload_effect \<Rightarrow> quanbuy_app \<Rightarrow> quanbuy_app" where
  \<comment> \<open>\<^verbatim>\<open>onPhotoSelect\<close> is the controller's \<^verbatim>\<open>handlePhotoSelect\<close>; an alert changes no cell\<close>
  "upload_callback (OnPhotoSelect p) app = handlePhotoSelect p app"
| "upload_callback _ app = app"

definition selectFile ::
  "read_outcome \<Rightarrow> file_info \<Rightarrow> bool \<times> quanbuy_app \<Rightarrow> (bool \<times> quanbuy_app) \<times> upload_effect list" where
  \<comment> \<open>\<^verbatim>\<open>handleFileSelect\<close> of the mounted \<^verbatim>\<open>PhotoUpload\<close>; the state is its cell \<^verbatim>\<open>uploading\<close>
      and the controller\<close>
  "selectFile rd f st =
     (let (uploading', effs) = handleFileSelect rd f (fst st)
      in ((uploading', fold upload_callback effs (snd st)), effs))"

subsection \<open>The style-analysis controller, the voice input and its results\<close>

record recommendation =
  rec_id :: "string option"
  rec_name :: string
  rec_price :: string
  reason :: string

record analysis_result =
  analysis :: "string option"
  confidence_score :: "rat option"
  recommendations :: "recommendation list option"
  persuasion_points :: "string list option"
  voice_response :: "string option"
  analysis_error :: "string option"

record analyze_body =
  body_image_base64 :: "string option"
  user_question :: string
  body_occasion :: string
  budget_range :: string
  body_user_id :: string

record analysis_app =
  analysis_photo :: "photo_data option"
  questionText :: string
  occasion :: string
  budget :: string
  analysisResults :: "analysis_result option"
  isAnalyzing :: bool

definition analysis_error_result :: "string \<Rightarrow> analysis_result" where
  "analysis_error_result m =
     \<lparr>analysis = None, confidence_score = None, recommendations = None,
      persuasion_points = None, voice_response = None, analysis_error = Some m\<rparr>"

definition settle_analysis ::
  "analysis_result fetch_outcome \<Rightarrow> analysis_app \<Rightarrow> analysis_app \<times> analyze_body app_effect list" where
  "settle_analysis net app =
     (let failed = (\<lambda>m. (app\<lparr>analysisResults := Some (analysis_error_result m),
                              isAnalyzing := False\<rparr>,
                          [ConsoleError ''Analysis error:'' m]))
      in case net of
           NetworkError m \<Rightarrow> failed m
         | HttpResponse ok statusText js \<Rightarrow>
             if \<not> ok then failed (''Analysis failed: '' @ statusText)
             else (case js of
                     Inl m \<Rightarrow> failed m
                   | Inr results \<Rightarrow>
                       (app\<lparr>analysisResults := Some results, isAnalyzing := False\<rparr>, [])))"

definition handleAnalyze ::
  "analysis_result fetch_outcome \<Rightarrow> analysis_app \<Rightarrow> analysis_app \<times> analyze_body app_effect list" where
  "handleAnalyze net app =
     (case analysis_photo app of
        None \<Rightarrow> (app, [Alert ''Please upload a photo and ask a question''])
      | Some p \<Rightarrow>
          if trim (questionText app) = []
          then (app, [Alert ''Please upload a photo and ask a question''])
          else (let body = \<lparr>body_image_base64 = base64 p, user_question = questionText app,
                            body_occasion = occasion app, budget_range = budget app,
                            body_user_id = ''web-user''\<rparr>;
                    (app', effs) = settle_analysis net (app\<lparr>isAnalyzing := True\<rparr>)
                in (app', Fetch ''/api/analyze-style'' body # effs)))"

definition handleRetry_analysis :: "analysis_app \<Rightarrow> analysis_app" where
  "handleRetry_analysis app =
     app\<lparr>analysisResults := None, analysis_photo := None, questionText := [],
         occasion := [], budget := []\<rparr>"

record speech_result =
  isFinal :: bool
  transcript :: string  \<comment> \<open>of the first alternative, \<^verbatim>\<open>results[i][0].transcript\<close>\<close>

datatype voice_effect = OnVoiceInput string | OnTextChange string

fun collect_transcripts :: "speech_result list \<Rightarrow> string \<times> string \<Rightarrow> string \<times> string" where
  \<comment> \<open>the loop over the results; the pair is \<^verbatim>\<open>interimTranscript\<close> and \<^verbatim>\<open>finalTranscript\<close>\<close>
  "collect_transcripts [] acc = acc"
| "collect_transcripts (r # rs) (interimTranscript, finalTranscript) =
     collect_transcripts rs
       (if isFinal r then (interimTranscript, finalTranscript @ transcript r)
        else (interimTranscript @ transcript r, finalTranscript))"

definition onresult :: "nat \<Rightarrow> speech_result list \<Rightarrow> string \<Rightarrow> string \<times> voice_effect list" where
  \<comment> \<open>\<^verbatim>\<open>recognition.onresult\<close> on an event with \<^verbatim>\<open>resultIndex\<close> and \<^verbatim>\<open>results\<close>, with the prop
      \<^verbatim>\<open>currentText\<close>: the text it hands to \<^verbatim>\<open>setTranscript\<close>, which is what the component
      shows, and the callbacks it makes\<close>
  "onresult resultIndex results currentText =
     (let (interimTranscript, finalTranscript) =
            collect_transcripts (drop resultIndex results) ([], []);
          fullTranscript = (if finalTranscript \<noteq> [] then finalTranscript else interimTranscript)
      in (fullTranscript,
          if finalTranscript \<noteq> []
          then [OnVoiceInput finalTranscript,
                OnTextChange (currentText @ '' '' @ finalTranscript)]
          else []))"

fun voice_callback :: "voice_effect \<Rightarrow> analysis_app \<Rightarrow> analysis_app" where
  \<comment> \<open>\<^verbatim>\<open>handleVoiceInput\<close> only logs; \<^verbatim>\<open>handleTextChange\<close> sets the question\<close>
  "voice_callback (OnVoiceInput t) app = app"
| "voice_callback (OnTextChange text) app = app\<lparr>questionText := text\<rparr>"

definition speech_event :: "nat \<Rightarrow> speech_result list \<Rightarrow> analysis_app \<Rightarrow> string \<times> analysis_app" where
  \<comment> \<open>a result event in the mounted \<^verbatim>\<open>VoiceInput\<close>, whose \<^verbatim>\<open>currentText\<close> is the controller's
      \<^verbatim>\<open>questionText\<close>: the transcript shown and the controller afterwards\<close>
  "speech_event resultIndex results app =
     (let (shown, effs) = onresult resultIndex results (questionText app)
      in (shown, fold voice_callback effs app))"

definition confidence_percent :: "analysis_result \<Rightarrow> rat" where
  \<comment> \<open>\<^verbatim>\<open>(results.confidence_score || 0.9) * 100\<close>, the width of the bar in percent:
      \<^verbatim>\<open>||\<close> takes its right side when the left is \<^verbatim>\<open>undefined\<close>, \<^verbatim>\<open>null\<close> or 0\<close>
  "confidence_percent r =
     (case confidence_score r of
        None \<Rightarrow> 9 / 10
      | Some c \<Rightarrow> if c = 0 then 9 / 10 else c) * 100"

datatype analysis_view =
    AnalysisLoading
  | EmptyState
  | ErrorState string
  | StyleAnalysis rat  \<comment> \<open>the tabs, under a bar of this width in percent\<close>

definition AnalysisResults :: "analysis_result option \<Rightarrow> bool \<Rightarrow> analysis_view" where
  "AnalysisResults results isLoading =
     (if isLoading then AnalysisLoading
      else (case results of
              None \<Rightarrow> EmptyState
            | Some r \<Rightarrow>
                (case analysis_error r of
                   None \<Rightarrow> StyleAnalysis (confidence_percent r)
                 | Some e \<Rightarrow> if e \<noteq> [] then ErrorState e
                             else StyleAnalysis (confidence_percent r))))"

subsection \<open>Initial states and sample values\<close>

definition initial_input :: shopping_input where
  \<comment> \<open>the \<^verbatim>\<open>useState\<close> defaults of \<^verbatim>\<open>ShoppingInput\<close>\<close>
  "initial_input =
     \<lparr>searchType = ''photo'', promptText = [], selectedStores = [], draggedUrls = []\<rparr>"

definition initial_app :: quanbuy_app where
  \<comment> \<open>the \<^verbatim>\<open>useState\<close> defaults of the product-search \<^verbatim>\<open>QuanBuyApp\<close>\<close>
  "initial_app =
     \<lparr>photo = None, searchResults = None, isSearching = False, showPhotoUpload = True,
      shoppingInput = initial_input\<rparr>"

definition initial_analysis_app :: analysis_app where
  \<comment> \<open>the \<^verbatim>\<open>useState\<close> defaults of the style-analysis \<^verbatim>\<open>QuanBuyApp\<close>\<close>
  "initial_analysis_app =
     \<lparr>analysis_photo = None, questionText = [], occasion = [], budget = [],
      analysisResults = None, isAnalyzing = False\<rparr>"

definition sample_file :: file_info where
  "sample_file = \<lparr>file_name = ''shoe.png'', file_type = ''image/png'', file_size = 2048\<rparr>"

definition sample_photo :: photo_data where
  \<comment> \<open>what \<^verbatim>\<open>PhotoUpload\<close> hands over for \<open>sample_file\<close> read as the data URL below\<close>
  "sample_photo =
     \<lparr>photo_file = sample_file, base64 = Some ''iVBORw0KGgo='',
      preview = ''data:image/png;base64,iVBORw0KGgo=''\<rparr>"


definition sample_hostname :: "string \<Rightarrow> string option" where
  \<comment> \<open>the browser's URL parser on the strings of the examples, and on those only: three
      URLs with their host names, and \<^verbatim>\<open>http://\<close>, which is not in the table because
      \<^verbatim>\<open>new URL('http://')\<close> throws (a URL of that scheme needs a host)\<close>
  "sample_hostname =
     map_of [(''https://www.etsy.com/shop'', ''www.etsy.com''),
             (''https://zara.com/'', ''zara.com''),
             (''ftp://files.example.com/a'', ''files.example.com'')]"

fun lex_compare :: "nat list \<Rightarrow> nat list \<Rightarrow> rat" where
  \<comment> \<open>negative, zero or positive as the first list is before, equal to or after the
      second in the lexicographic order\<close>
  "lex_compare [] [] = 0"
| "lex_compare [] (y # ys) = - 1"
| "lex_compare (x # xs) [] = 1"
| "lex_compare (x # xs) (y # ys) =
     (if x < y then - 1 else if y < x then 1 else lex_compare xs ys)"

definition codeunit_compare :: "string \<Rightarrow> string \<Rightarrow> rat" where
  \<comment> \<open>a sample collation: the order of the code units\<close>
  "codeunit_compare a b = lex_compare (map of_char a) (map of_char b)"


definition is_fetch :: "'b app_effect \<Rightarrow> bool" where
  "is_fetch e = (case e of Fetch _ _ \<Rightarrow> True | _ \<Rightarrow> False)"

section \<open>Properties\<close>

subsection \<open>Toggling a store\<close>

lemma find_None_image: "(find (\<lambda>e. f e = k) xs = None) = (k \<notin> f ` set xs)"
  by (induction xs) auto

lemma handleStoreToggle_once:
  "handleStoreToggle s L =
     (if url s \<in> url ` set L then filter (\<lambda>e. url e \<noteq> url s) L else L @ [s])"
proof (cases "find (\<lambda>e. url e = url s) L")
  case None
  then show ?thesis using find_None_image [of url "url s" L]
    by (simp add: handleStoreToggle_def)
next
  case (Some a)
  then have "find (\<lambda>e. url e = url s) L \<noteq> None" by simp
  then have "url s \<in> url ` set L" using find_None_image [of url "url s" L] by simp
  with Some show ?thesis by (simp add: handleStoreToggle_def)
qed

text \<open>
  C9, as the code has it. One click on a store appends it to the selection when no entry
  has its url and removes every entry with that url otherwise. Two clicks on the same
  store give the selection back when no entry had its url; when one had, they give the
  selection without the entries of that url, followed by the store: the same urls, the
  store moved to the end.
\<close>

theorem handleStoreToggle_twice:
  "handleStoreToggle s L =
     (if url s \<in> url ` set L then filter (\<lambda>e. url e \<noteq> url s) L else L @ [s])
   \<and> handleStoreToggle s (handleStoreToggle s L) =
     (if url s \<in> url ` set L then filter (\<lambda>e. url e \<noteq> url s) L @ [s] else L)"
proof (cases "url s \<in> url ` set L")
  case True
  have "\<forall>x\<in>set (filter (\<lambda>e. url e \<noteq> url s) L). url x \<noteq> url s" by simp
  then have "url s \<notin> url ` set (filter (\<lambda>e. url e \<noteq> url s) L)" by (metis imageE)
  with True show ?thesis by (simp add: handleStoreToggle_once)
next
  case False
  then have "\<forall>x\<in>set L. url x \<noteq> url s" by (metis imageI)
  then have "filter (\<lambda>e. url e \<noteq> url s) L = L" by simp
  with False show ?thesis by (simp add: handleStoreToggle_once)
qed

theorem handleStoreToggle_twice_witness:
  "handleStoreToggle (popularStores ! 2) [popularStores ! 0]
     = [popularStores ! 0, popularStores ! 2]
   \<and> handleStoreToggle (popularStores ! 2)
       (handleStoreToggle (popularStores ! 2) [popularStores ! 0])
     = [popularStores ! 0]"
  using handleStoreToggle_twice [of "popularStores ! 2" "[popularStores ! 0]"]
  by (simp add: popularStores_def handleStoreToggle_def)

text \<open>
  The claim that two clicks always give the selection back fails on a selection without
  duplicates: with Amazon and Target selected, two clicks on Amazon leave Target before
  Amazon.
\<close>

theorem handleStoreToggle_twice_counterexample:
  "handleStoreToggle (popularStores ! 0)
     (handleStoreToggle (popularStores ! 0) [popularStores ! 0, popularStores ! 1])
   = [popularStores ! 1, popularStores ! 0]
   \<and> [popularStores ! 1, popularStores ! 0] \<noteq> [popularStores ! 0, popularStores ! 1]
   \<and> distinct (map url [popularStores ! 0, popularStores ! 1])"
  by (simp add: handleStoreToggle_def popularStores_def)

subsection \<open>The confidence bar\<close>

text \<open>
  C7 says that the bar is as wide as \<^verbatim>\<open>confidence_score\<close> times 100 percent whenever the score
  is there, and 90 percent exactly when it is absent. A result whose score is 0 has the
  score, and its bar is 90 percent wide, not 0.
\<close>

theorem confidence_percent_zero:
  "confidence_percent \<lparr>analysis = Some ''ok'', confidence_score = Some 0,
      recommendations = None, persuasion_points = None, voice_response = None,
      analysis_error = None\<rparr> = 90"
  by (simp add: confidence_percent_def)

subsection \<open>The search button and the controller\<close>

lemma all_dropWhile: "(\<forall>x\<in>set (dropWhile P s). P x) = (\<forall>x\<in>set s. P x)"
proof
  assume a: "\<forall>x\<in>set (dropWhile P s). P x"
  have "dropWhile P s = []"
  proof (rule ccontr)
    assume n: "dropWhile P s \<noteq> []"
    then have "\<not> P (hd (dropWhile P s))" by (rule hd_dropWhile)
    moreover have "hd (dropWhile P s) \<in> set (dropWhile P s)" using n by simp
    ultimately show False using a by blast
  qed
  then show "\<forall>x\<in>set s. P x" by (simp add: dropWhile_eq_Nil_conv)
next
  assume "\<forall>x\<in>set s. P x"
  then show "\<forall>x\<in>set (dropWhile P s). P x" by (meson set_dropWhileD)
qed

lemma trim_empty_iff: "(trim s = []) = (\<forall>c\<in>set s. isWhiteSpace c)"
  by (simp add: trim_def dropWhile_eq_Nil_conv all_dropWhile)

lemma settle_search_no_fetch: "filter is_fetch (snd (settle_search net app)) = []"
  by (cases net) (auto simp: settle_search_def is_fetch_def Let_def split: sum.splits)

lemma handleSearchRequest_posts:
  assumes "sd_type d = ''prompt'' \<or> photo app \<noteq> None"
  shows "\<exists>effs. snd (handleSearchRequest net d app) =
            Fetch ''/api/search-products'' (requestBody (photo app) d) # effs
          \<and> filter is_fetch effs = []"
proof -
  obtain a e where ae: "settle_search net (awaiting_search app) = (a, e)" by (cases "settle_search net (awaiting_search app)")
  then have "filter is_fetch e = []" using settle_search_no_fetch [of net "awaiting_search app"] by simp
  with ae assms show ?thesis by (auto simp: handleSearchRequest_def)
qed

lemma handleSearchRequest_blocked:
  assumes "sd_type d \<noteq> ''prompt''" "photo app = None"
  shows "handleSearchRequest net d app = (app, [Alert ''Please upload a photo for visual search''])"
  using assms by (simp add: handleSearchRequest_def)

text \<open>
  C1, as the code has it. The search button checks the prompt for the search type
  \<^verbatim>\<open>'prompt'\<close> only, and checks the trimmed text. With that type, a prompt that is empty or
  all white space is answered by the alert and nothing else happens: no callback, no
  request. A prompt with a character that is not white space goes to the controller,
  which posts the request. With any other type, \<^verbatim>\<open>'both'\<close> included, the prompt is not
  looked at: the submission goes to the controller whatever the text, and the controller
  asks for a photo only, posting the request when there is one and answering with its
  own alert when there is none.
\<close>

theorem handleSearch_prompt_guard:
  "shoppingInput app = s \<longrightarrow>
     (let d = \<lparr>sd_type = searchType s, sd_prompt = promptText s,
               sd_stores = selectedStores s @ draggedUrls s\<rparr>
      in (searchType s = ''prompt'' \<and> (\<forall>c\<in>set (promptText s). isWhiteSpace c) \<longrightarrow>
            handleSearch s = Inl ''Please enter what you're looking for''
            \<and> clickSearch net app = (app, [Alert ''Please enter what you're looking for'']))
       \<and> (searchType s = ''prompt'' \<and> (\<exists>c\<in>set (promptText s). \<not> isWhiteSpace c) \<longrightarrow>
            handleSearch s = Inr d
            \<and> (\<exists>effs. snd (clickSearch net app) =
                  Fetch ''/api/search-products'' (requestBody (photo app) d) # effs))
       \<and> (searchType s \<noteq> ''prompt'' \<longrightarrow>
            handleSearch s = Inr d
            \<and> (photo app = None \<longrightarrow>
                 clickSearch net app = (app, [Alert ''Please upload a photo for visual search'']))
            \<and> (photo app \<noteq> None \<longrightarrow>
                 (\<exists>effs. snd (clickSearch net app) =
                    Fetch ''/api/search-products'' (requestBody (photo app) d) # effs))))"
proof (intro impI)
  assume s: "shoppingInput app = s"
  define d where "d = \<lparr>sd_type = searchType s, sd_prompt = promptText s,
               sd_stores = selectedStores s @ draggedUrls s\<rparr>"
  have blocked: "handleSearch s = Inl ''Please enter what you're looking for''
      \<and> clickSearch net app = (app, [Alert ''Please enter what you're looking for''])"
    if "searchType s = ''prompt''" "\<forall>c\<in>set (promptText s). isWhiteSpace c"
    using that s by (simp add: handleSearch_def clickSearch_def trim_empty_iff)
  have goes: "handleSearch s = Inr d \<and> clickSearch net app = handleSearchRequest net d app"
    if "searchType s \<noteq> ''prompt'' \<or> (\<exists>c\<in>set (promptText s). \<not> isWhiteSpace c)"
    using that s by (auto simp: handleSearch_def clickSearch_def trim_empty_iff d_def Let_def)
  have posts: "\<exists>effs. snd (clickSearch net app) =
                  Fetch ''/api/search-products'' (requestBody (photo app) d) # effs"
    if t: "searchType s = ''prompt''" and c: "\<exists>c\<in>set (promptText s). \<not> isWhiteSpace c"
  proof -
    have "sd_type d = ''prompt''" using t by (simp add: d_def)
    then obtain effs where "snd (handleSearchRequest net d app) =
            Fetch ''/api/search-products'' (requestBody (photo app) d) # effs"
      using handleSearchRequest_posts [of d app net] by blast
    then show ?thesis using goes c by auto
  qed
  have noph: "clickSearch net app = (app, [Alert ''Please upload a photo for visual search''])"
    if t: "searchType s \<noteq> ''prompt''" and p: "photo app = None"
  proof -
    have "sd_type d \<noteq> ''prompt''" using t by (simp add: d_def)
    then have "handleSearchRequest net d app =
        (app, [Alert ''Please upload a photo for visual search''])"
      using p by (rule handleSearchRequest_blocked)
    then show ?thesis using goes t by simp
  qed
  have withph: "\<exists>effs. snd (clickSearch net app) =
                  Fetch ''/api/search-products'' (requestBody (photo app) d) # effs"
    if t: "searchType s \<noteq> ''prompt''" and p: "photo app \<noteq> None"
  proof -
    obtain effs where "snd (handleSearchRequest net d app) =
            Fetch ''/api/search-products'' (requestBody (photo app) d) # effs"
      using handleSearchRequest_posts [of d app net] p by blast
    then show ?thesis using goes t by auto
  qed
  show "let d = \<lparr>sd_type = searchType s, sd_prompt = promptText s,
               sd_stores = selectedStores s @ draggedUrls s\<rparr>
      in (searchType s = ''prompt'' \<and> (\<forall>c\<in>set (promptText s). isWhiteSpace c) \<longrightarrow>
            handleSearch s = Inl ''Please enter what you're looking for''
            \<and> clickSearch net app = (app, [Alert ''Please enter what you're looking for'']))
       \<and> (searchType s = ''prompt'' \<and> (\<exists>c\<in>set (promptText s). \<not> isWhiteSpace c) \<longrightarrow>
            handleSearch s = Inr d
            \<and> (\<exists>effs. snd (clickSearch net app) =
                  Fetch ''/api/search-products'' (requestBody (photo app) d) # effs))
       \<and> (searchType s \<noteq> ''prompt'' \<longrightarrow>
            handleSearch s = Inr d
            \<and> (photo app = None \<longrightarrow>
                 clickSearch net app = (app, [Alert ''Please upload a photo for visual search'']))
            \<and> (photo app \<noteq> None \<longrightarrow>
                 (\<exists>effs. snd (clickSearch net app) =
                    Fetch ''/api/search-products'' (requestBody (photo app) d) # effs)))"
    unfolding Let_def d_def [symmetric] using blocked goes posts noph withph by blast
qed


theorem handleSearch_prompt_guard_witness:
  "handleSearch (initial_input\<lparr>searchType := ''prompt'', promptText := ''  ''\<rparr>)
     = Inl ''Please enter what you're looking for''
   \<and> clickSearch (NetworkError ''Failed to fetch'')
       (initial_app\<lparr>shoppingInput := initial_input\<lparr>searchType := ''prompt'', promptText := ''  ''\<rparr>\<rparr>)
     = (initial_app\<lparr>shoppingInput := initial_input\<lparr>searchType := ''prompt'', promptText := ''  ''\<rparr>\<rparr>,
        [Alert ''Please enter what you're looking for''])
   \<and> handleSearch (initial_input\<lparr>searchType := ''prompt'', promptText := ''red shoes''\<rparr>)
     = Inr \<lparr>sd_type = ''prompt'', sd_prompt = ''red shoes'', sd_stores = []\<rparr>
   \<and> (\<exists>effs. snd (clickSearch (NetworkError ''Failed to fetch'')
         (initial_app\<lparr>shoppingInput := initial_input\<lparr>searchType := ''prompt'', promptText := ''red shoes''\<rparr>\<rparr>))
       = Fetch ''/api/search-products''
           (requestBody None \<lparr>sd_type = ''prompt'', sd_prompt = ''red shoes'', sd_stores = []\<rparr>) # effs)
   \<and> handleSearch initial_input = Inr \<lparr>sd_type = ''photo'', sd_prompt = [], sd_stores = []\<rparr>"
  using
    handleSearch_prompt_guard [of
      "initial_app\<lparr>shoppingInput := initial_input\<lparr>searchType := ''prompt'', promptText := ''  ''\<rparr>\<rparr>"
      "initial_input\<lparr>searchType := ''prompt'', promptText := ''  ''\<rparr>"
      "NetworkError ''Failed to fetch''"]
    handleSearch_prompt_guard [of
      "initial_app\<lparr>shoppingInput := initial_input\<lparr>searchType := ''prompt'', promptText := ''red shoes''\<rparr>\<rparr>"
      "initial_input\<lparr>searchType := ''prompt'', promptText := ''red shoes''\<rparr>"
      "NetworkError ''Failed to fetch''"]
    handleSearch_prompt_guard [of initial_app initial_input "NetworkError ''Failed to fetch''"]
  by (simp add: initial_app_def initial_input_def isWhiteSpace_def Let_def)

text \<open>
  The claim fails for \<^verbatim>\<open>'both'\<close> with an empty prompt, where the request is posted, and
  for \<^verbatim>\<open>'prompt'\<close> with a prompt of two spaces, which is not empty and is blocked.
\<close>

theorem handleSearch_prompt_guard_counterexample:
  "promptText (initial_input\<lparr>searchType := ''both''\<rparr>) = []
   \<and> clickSearch (NetworkError ''Failed to fetch'')
       (initial_app\<lparr>photo := Some sample_photo,
                    shoppingInput := initial_input\<lparr>searchType := ''both''\<rparr>\<rparr>)
     = (initial_app\<lparr>photo := Some sample_photo,
                    shoppingInput := initial_input\<lparr>searchType := ''both''\<rparr>,
                    searchResults := Some (error_result ''Failed to fetch'')\<rparr>,
        [Fetch ''/api/search-products''
           \<lparr>search_type = ''both'', user_id = ''web-user'', stores = [],
            image_base64 = Some ''iVBORw0KGgo='', search_prompt = None\<rparr>,
         ConsoleError ''Search error:'' ''Failed to fetch''])
   \<and> promptText (initial_input\<lparr>searchType := ''prompt'', promptText := ''  ''\<rparr>) \<noteq> []
   \<and> handleSearch (initial_input\<lparr>searchType := ''prompt'', promptText := ''  ''\<rparr>)
     = Inl ''Please enter what you're looking for''"
  by (simp add: clickSearch_def handleSearch_def handleSearchRequest_def settle_search_def
      awaiting_search_def requestBody_def initial_app_def initial_input_def sample_photo_def
      trim_def isWhiteSpace_def)

text \<open>
  C2, as the code has it. From the error panel or the grid, the retry of the
  product-search controller gives the view of no request, with no photo and no result,
  and shows the photo upload again; the cells of the input, the prompt text among them,
  are what they were. The retry of the style-analysis controller gives its empty state
  and every cell its initial value: photo, question, occasion, budget and result.
\<close>

theorem handleRetry_clears:
  "(ProductResults toDouble localeCompare sortBy filterStore (searchResults app) (isSearching app)
       \<notin> {Loading, NoView} \<longrightarrow>
      ProductResults toDouble localeCompare sortBy filterStore
          (searchResults (handleRetry app)) (isSearching (handleRetry app)) = NoView
      \<and> photo (handleRetry app) = None
      \<and> searchResults (handleRetry app) = None
      \<and> showPhotoUpload (handleRetry app)
      \<and> shoppingInput (handleRetry app) = shoppingInput app)
   \<and> (AnalysisResults (analysisResults a) (isAnalyzing a) \<notin> {AnalysisLoading, EmptyState} \<longrightarrow>
      AnalysisResults (analysisResults (handleRetry_analysis a))
          (isAnalyzing (handleRetry_analysis a)) = EmptyState
      \<and> handleRetry_analysis a = initial_analysis_app)"
  by (auto simp: ProductResults_def AnalysisResults_def handleRetry_def handleRetry_analysis_def
      initial_analysis_app_def split: if_splits)

text \<open>
  The prompt text survives the retry of the product-search controller: after a failed
  search for red shoes and a retry, the text is still there.
\<close>

theorem handleRetry_clears_counterexample:
  "ProductResults (\<lambda>x. x) (\<lambda>a b. 0) ''relevance'' ''all''
      (searchResults (fst (clickSearch (NetworkError ''Failed to fetch'')
         (initial_app\<lparr>shoppingInput :=
            initial_input\<lparr>searchType := ''prompt'', promptText := ''red shoes''\<rparr>\<rparr>))))
      (isSearching (fst (clickSearch (NetworkError ''Failed to fetch'')
         (initial_app\<lparr>shoppingInput :=
            initial_input\<lparr>searchType := ''prompt'', promptText := ''red shoes''\<rparr>\<rparr>))))
     = ErrorPanel ''Failed to fetch''
   \<and> promptText (shoppingInput (handleRetry (fst (clickSearch (NetworkError ''Failed to fetch'')
         (initial_app\<lparr>shoppingInput :=
            initial_input\<lparr>searchType := ''prompt'', promptText := ''red shoes''\<rparr>\<rparr>)))))
     = ''red shoes''"
  by (simp add: clickSearch_def handleSearch_def handleSearchRequest_def settle_search_def
      awaiting_search_def initial_app_def initial_input_def trim_def isWhiteSpace_def
      ProductResults_def error_result_def handleRetry_def)


theorem handleRetry_clears_witness:
  "ProductResults (\<lambda>x. x) (\<lambda>a b. 0) ''relevance'' ''all''
       (searchResults (handleRetry (initial_app\<lparr>photo := Some sample_photo,
           searchResults := Some (error_result ''Failed to fetch'')\<rparr>)))
       (isSearching (handleRetry (initial_app\<lparr>photo := Some sample_photo,
           searchResults := Some (error_result ''Failed to fetch'')\<rparr>))) = NoView
   \<and> photo (handleRetry (initial_app\<lparr>photo := Some sample_photo,
           searchResults := Some (error_result ''Failed to fetch'')\<rparr>)) = None
   \<and> handleRetry_analysis (initial_analysis_app\<lparr>analysis_photo := Some sample_photo,
         questionText := ''How do I look?'', occasion := ''work'',
         analysisResults := Some (analysis_error_result ''Failed to fetch'')\<rparr>)
     = initial_analysis_app"
  using
    handleRetry_clears [of "\<lambda>x. x" "\<lambda>a b. 0" "''relevance''" "''all''"
      "initial_app\<lparr>photo := Some sample_photo,
           searchResults := Some (error_result ''Failed to fetch'')\<rparr>"
      "initial_analysis_app\<lparr>analysis_photo := Some sample_photo,
         questionText := ''How do I look?'', occasion := ''work'',
         analysisResults := Some (analysis_error_result ''Failed to fetch'')\<rparr>"]
  by (simp add: ProductResults_def AnalysisResults_def initial_app_def initial_analysis_app_def
      error_result_def analysis_error_result_def handleRetry_def handleRetry_analysis_def)

text \<open>
  C5. A request that was posted and answered with a status that is not a success leaves
  in the result cell a payload that has an error and nothing else: no products, no query,
  no counts, and as error the text \<^verbatim>\<open>Search failed: \<close> followed by the status text of the
  response, which is what the error panel then shows. One whose \<^verbatim>\<open>fetch\<close> fails leaves the
  payload whose only field is the error, the message of the exception. The handler returns
  in both cases, with the loading flag down. The same holds for the style-analysis
  controller, with \<^verbatim>\<open>Analysis failed: \<close>.
\<close>

theorem failure_gives_error_result:
  "(sd_type d = ''prompt'' \<or> photo app \<noteq> None \<longrightarrow>
      handleSearchRequest (HttpResponse False statusText js) d app =
        (app\<lparr>isSearching := False,
             searchResults :=
               Some \<lparr>products = None, search_query = None, total_found = None,
                     stores_searched = None,
                     error = Some (''Search failed: '' @ statusText)\<rparr>\<rparr>,
         [Fetch ''/api/search-products'' (requestBody (photo app) d),
          ConsoleError ''Search error:'' (''Search failed: '' @ statusText)])
      \<and> handleSearchRequest (NetworkError message) d app =
        (app\<lparr>isSearching := False,
             searchResults :=
               Some \<lparr>products = None, search_query = None, total_found = None,
                     stores_searched = None, error = Some message\<rparr>\<rparr>,
         [Fetch ''/api/search-products'' (requestBody (photo app) d),
          ConsoleError ''Search error:'' message])
      \<and> ProductResults toDouble localeCompare sortBy filterStore
            (searchResults (fst (handleSearchRequest (HttpResponse False statusText js) d app)))
            (isSearching (fst (handleSearchRequest (HttpResponse False statusText js) d app)))
          = ErrorPanel (''Search failed: '' @ statusText))
   \<and> (analysis_photo a \<noteq> None \<and> trim (questionText a) \<noteq> [] \<longrightarrow>
      fst (handleAnalyze (HttpResponse False statusText js') a) =
        a\<lparr>isAnalyzing := False,
          analysisResults :=
            Some \<lparr>analysis = None, confidence_score = None, recommendations = None,
                  persuasion_points = None, voice_response = None,
                  analysis_error = Some (''Analysis failed: '' @ statusText)\<rparr>\<rparr>
      \<and> fst (handleAnalyze (NetworkError message) a) =
        a\<lparr>isAnalyzing := False,
          analysisResults :=
            Some \<lparr>analysis = None, confidence_score = None, recommendations = None,
                  persuasion_points = None, voice_response = None,
                  analysis_error = Some message\<rparr>\<rparr>
      \<and> AnalysisResults
            (analysisResults (fst (handleAnalyze (HttpResponse False statusText js') a)))
            (isAnalyzing (fst (handleAnalyze (HttpResponse False statusText js') a)))
          = ErrorState (''Analysis failed: '' @ statusText))"
proof (intro conjI impI)
  assume g: "sd_type d = ''prompt'' \<or> photo app \<noteq> None"
  show s1: "handleSearchRequest (HttpResponse False statusText js) d app =
        (app\<lparr>isSearching := False,
             searchResults :=
               Some \<lparr>products = None, search_query = None, total_found = None,
                     stores_searched = None,
                     error = Some (''Search failed: '' @ statusText)\<rparr>\<rparr>,
         [Fetch ''/api/search-products'' (requestBody (photo app) d),
          ConsoleError ''Search error:'' (''Search failed: '' @ statusText)])"
    using g by (auto simp: handleSearchRequest_def settle_search_def awaiting_search_def
        error_result_def)
  show "handleSearchRequest (NetworkError message) d app =
        (app\<lparr>isSearching := False,
             searchResults :=
               Some \<lparr>products = None, search_query = None, total_found = None,
                     stores_searched = None, error = Some message\<rparr>\<rparr>,
         [Fetch ''/api/search-products'' (requestBody (photo app) d),
          ConsoleError ''Search error:'' message])"
    using g by (auto simp: handleSearchRequest_def settle_search_def awaiting_search_def
        error_result_def)
  show "ProductResults toDouble localeCompare sortBy filterStore
            (searchResults (fst (handleSearchRequest (HttpResponse False statusText js) d app)))
            (isSearching (fst (handleSearchRequest (HttpResponse False statusText js) d app)))
          = ErrorPanel (''Search failed: '' @ statusText)"
    by (simp add: s1 ProductResults_def)
next
  assume g: "analysis_photo a \<noteq> None \<and> trim (questionText a) \<noteq> []"
  then obtain p where p: "analysis_photo a = Some p" by blast
  show a1: "fst (handleAnalyze (HttpResponse False statusText js') a) =
        a\<lparr>isAnalyzing := False,
          analysisResults :=
            Some \<lparr>analysis = None, confidence_score = None, recommendations = None,
                  persuasion_points = None, voice_response = None,
                  analysis_error = Some (''Analysis failed: '' @ statusText)\<rparr>\<rparr>"
    using g p by (simp add: handleAnalyze_def settle_analysis_def analysis_error_result_def)
  show "fst (handleAnalyze (NetworkError message) a) =
        a\<lparr>isAnalyzing := False,
          analysisResults :=
            Some \<lparr>analysis = None, confidence_score = None, recommendations = None,
                  persuasion_points = None, voice_response = None,
                  analysis_error = Some message\<rparr>\<rparr>"
    using g p by (simp add: handleAnalyze_def settle_analysis_def analysis_error_result_def)
  show "AnalysisResults
            (analysisResults (fst (handleAnalyze (HttpResponse False statusText js') a)))
            (isAnalyzing (fst (handleAnalyze (HttpResponse False statusText js') a)))
          = ErrorState (''Analysis failed: '' @ statusText)"
    by (simp add: a1 AnalysisResults_def)
qed

theorem failure_gives_error_result_witness:
  "handleSearchRequest (HttpResponse False ''Bad Gateway'' (Inl []))
       \<lparr>sd_type = ''photo'', sd_prompt = [], sd_stores = []\<rparr>
       (initial_app\<lparr>photo := Some sample_photo\<rparr>) =
     (initial_app\<lparr>photo := Some sample_photo,
         searchResults :=
           Some \<lparr>products = None, search_query = None, total_found = None,
                 stores_searched = None, error = Some ''Search failed: Bad Gateway''\<rparr>\<rparr>,
      [Fetch ''/api/search-products''
         \<lparr>search_type = ''photo'', user_id = ''web-user'', stores = [],
          image_base64 = Some ''iVBORw0KGgo='', search_prompt = None\<rparr>,
       ConsoleError ''Search error:'' ''Search failed: Bad Gateway''])
   \<and> analysisResults (fst (handleAnalyze (NetworkError ''Failed to fetch'')
        (initial_analysis_app\<lparr>analysis_photo := Some sample_photo,
           questionText := ''How do I look?''\<rparr>)))
     = Some \<lparr>analysis = None, confidence_score = None, recommendations = None,
             persuasion_points = None, voice_response = None,
             analysis_error = Some ''Failed to fetch''\<rparr>"
  using
    failure_gives_error_result [where d = "\<lparr>sd_type = ''photo'', sd_prompt = [], sd_stores = []\<rparr>"
      and app = "initial_app\<lparr>photo := Some sample_photo\<rparr>" and statusText = "''Bad Gateway''"
      and js = "Inl []" and message = "''Failed to fetch''"
      and a = "initial_analysis_app\<lparr>analysis_photo := Some sample_photo,
           questionText := ''How do I look?''\<rparr>" and js' = "Inl []"
      and toDouble = "\<lambda>x. x" and localeCompare = codeunit_compare
      and sortBy = "''relevance''" and filterStore = "''all''"]
  by (simp add: initial_app_def initial_analysis_app_def requestBody_def sample_photo_def
      trim_def isWhiteSpace_def)

text \<open>
  C10. When the controller posts (the type is \<^verbatim>\<open>'prompt'\<close> or there is a photo), it posts
  once, and the body has \<^verbatim>\<open>image_base64\<close> exactly when there is a photo and the type is
  \<^verbatim>\<open>'photo'\<close> or \<^verbatim>\<open>'both'\<close>, and \<^verbatim>\<open>search_prompt\<close> exactly when the prompt is not empty and
  the type is \<^verbatim>\<open>'prompt'\<close> or \<^verbatim>\<open>'both'\<close>. So a search of type \<^verbatim>\<open>'prompt'\<close> sends no image
  even with a photo uploaded, and one of type \<^verbatim>\<open>'both'\<close> with an empty prompt sends no
  prompt. The photo is one whose payload is defined, as every photo read from a data URL
  is.
\<close>

theorem requestBody_fields:
  "(sd_type d = ''prompt'' \<or> photo app \<noteq> None) \<longrightarrow>
   (\<forall>p. photo app = Some p \<longrightarrow> base64 p \<noteq> None) \<longrightarrow>
     (\<exists>effs. snd (handleSearchRequest net d app) =
          Fetch ''/api/search-products'' (requestBody (photo app) d) # effs
        \<and> filter is_fetch effs = [])
     \<and> (image_base64 (requestBody (photo app) d) \<noteq> None) =
         (photo app \<noteq> None \<and> (sd_type d = ''photo'' \<or> sd_type d = ''both''))
     \<and> image_base64 (requestBody (photo app) d) \<in> {None} \<union> base64 ` set_option (photo app)
     \<and> (search_prompt (requestBody (photo app) d) \<noteq> None) =
         (sd_prompt d \<noteq> [] \<and> (sd_type d = ''prompt'' \<or> sd_type d = ''both''))
     \<and> search_prompt (requestBody (photo app) d) \<in> {None, Some (sd_prompt d)}
     \<and> (sd_type d = ''prompt'' \<longrightarrow> image_base64 (requestBody (photo app) d) = None)
     \<and> (sd_type d = ''both'' \<and> sd_prompt d = [] \<longrightarrow>
          search_prompt (requestBody (photo app) d) = None)"
proof (intro impI)
  assume g: "sd_type d = ''prompt'' \<or> photo app \<noteq> None"
    and b: "\<forall>p. photo app = Some p \<longrightarrow> base64 p \<noteq> None"
  have post: "\<exists>effs. snd (handleSearchRequest net d app) =
          Fetch ''/api/search-products'' (requestBody (photo app) d) # effs
        \<and> filter is_fetch effs = []"
    using g by (rule handleSearchRequest_posts)
  have img: "(image_base64 (requestBody (photo app) d) \<noteq> None) =
         (photo app \<noteq> None \<and> (sd_type d = ''photo'' \<or> sd_type d = ''both''))"
    using b by (cases "photo app") (auto simp: requestBody_def)
  have img2: "image_base64 (requestBody (photo app) d) \<in> {None} \<union> base64 ` set_option (photo app)"
    by (cases "photo app") (auto simp: requestBody_def)
  have pr: "(search_prompt (requestBody (photo app) d) \<noteq> None) =
         (sd_prompt d \<noteq> [] \<and> (sd_type d = ''prompt'' \<or> sd_type d = ''both''))"
    by (simp add: requestBody_def)
  have pr2: "search_prompt (requestBody (photo app) d) \<in> {None, Some (sd_prompt d)}"
    by (simp add: requestBody_def)
  have p1: "sd_type d = ''prompt'' \<longrightarrow> image_base64 (requestBody (photo app) d) = None"
    by (cases "photo app") (auto simp: requestBody_def)
  have p2: "sd_type d = ''both'' \<and> sd_prompt d = [] \<longrightarrow>
          search_prompt (requestBody (photo app) d) = None"
    by (simp add: requestBody_def)
  from post img img2 pr pr2 p1 p2 show "(\<exists>effs. snd (handleSearchRequest net d app) =
          Fetch ''/api/search-products'' (requestBody (photo app) d) # effs
        \<and> filter is_fetch effs = [])
     \<and> (image_base64 (requestBody (photo app) d) \<noteq> None) =
         (photo app \<noteq> None \<and> (sd_type d = ''photo'' \<or> sd_type d = ''both''))
     \<and> image_base64 (requestBody (photo app) d) \<in> {None} \<union> base64 ` set_option (photo app)
     \<and> (search_prompt (requestBody (photo app) d) \<noteq> None) =
         (sd_prompt d \<noteq> [] \<and> (sd_type d = ''prompt'' \<or> sd_type d = ''both''))
     \<and> search_prompt (requestBody (photo app) d) \<in> {None, Some (sd_prompt d)}
     \<and> (sd_type d = ''prompt'' \<longrightarrow> image_base64 (requestBody (photo app) d) = None)
     \<and> (sd_type d = ''both'' \<and> sd_prompt d = [] \<longrightarrow>
          search_prompt (requestBody (photo app) d) = None)"
    by blast
qed

theorem requestBody_fields_witness:
  "snd (handleSearchRequest (NetworkError ''Failed to fetch'')
          \<lparr>sd_type = ''prompt'', sd_prompt = ''red shoes'', sd_stores = [popularStores ! 0]\<rparr>
          (initial_app\<lparr>photo := Some sample_photo\<rparr>))
     = [Fetch ''/api/search-products''
          \<lparr>search_type = ''prompt'', user_id = ''web-user'', stores = [(''Amazon'', ''amazon.com'')],
           image_base64 = None, search_prompt = Some ''red shoes''\<rparr>,
        ConsoleError ''Search error:'' ''Failed to fetch'']
   \<and> requestBody (Some sample_photo) \<lparr>sd_type = ''both'', sd_prompt = [], sd_stores = []\<rparr>
     = \<lparr>search_type = ''both'', user_id = ''web-user'', stores = [],
         image_base64 = Some ''iVBORw0KGgo='', search_prompt = None\<rparr>"
  using
    requestBody_fields [of
      "\<lparr>sd_type = ''prompt'', sd_prompt = ''red shoes'', sd_stores = [popularStores ! 0]\<rparr>"
      "initial_app\<lparr>photo := Some sample_photo\<rparr>" "NetworkError ''Failed to fetch''"]
    requestBody_fields [of
      "\<lparr>sd_type = ''both'', sd_prompt = [], sd_stores = []\<rparr>"
      "initial_app\<lparr>photo := Some sample_photo\<rparr>" "NetworkError ''Failed to fetch''"]
  by (simp add: handleSearchRequest_def settle_search_def awaiting_search_def requestBody_def
      initial_app_def sample_photo_def popularStores_def)

subsection \<open>Choosing a file\<close>

lemma split_on_no_sep: "d \<notin> set b \<Longrightarrow> split_on d b = [b]"
  by (induction b) auto

lemma split_on_first: "d \<notin> set a \<Longrightarrow> split_on d (a @ d # b) = a # split_on d b"
  by (induction a) auto

lemma data_url_payload:
  assumes "CHR '','' \<notin> set prefix" "CHR '','' \<notin> set payload"
  shows "at_index (split_on CHR '','' (prefix @ CHR '','' # payload)) (Suc 0) = Some payload"
  using assms by (simp add: split_on_first split_on_no_sep at_index_def)

text \<open>
  C6. A file whose type starts with \<^verbatim>\<open>image/\<close> and whose size is at most 5 MB passes the
  checks, and when the reader has loaded it the photo is handed to the controller, which
  stores it: the file, the data URL as preview, and as payload the part of the data URL
  after its comma. A file of another type, or larger than 5 MB, is answered by an alert
  and nothing else: the flag \<^verbatim>\<open>uploading\<close> and the controller, the current photo with it,
  are what they were.
\<close>

theorem handleFileSelect_validation:
  "(startsWith ''image/'' (file_type f) \<and> file_size f \<le> 5 * 1024 * 1024 \<longrightarrow>
      handleFileSelect (Loaded result) f uploading =
        (False, [OnPhotoSelect \<lparr>photo_file = f,
                                 base64 = at_index (split_on CHR '','' result) 1,
                                 preview = result\<rparr>])
      \<and> fst (selectFile (Loaded result) f (uploading, app)) =
        (False, app\<lparr>photo := Some \<lparr>photo_file = f,
                                     base64 = at_index (split_on CHR '','' result) 1,
                                     preview = result\<rparr>\<rparr>)
      \<and> (\<forall>prefix payload.
            result = prefix @ '','' @ payload \<and> CHR '','' \<notin> set prefix
              \<and> CHR '','' \<notin> set payload \<longrightarrow>
            at_index (split_on CHR '','' result) 1 = Some payload))
   \<and> (\<not> startsWith ''image/'' (file_type f) \<or> file_size f > 5 * 1024 * 1024 \<longrightarrow>
      handleFileSelect rd f uploading =
        (uploading, [UploadAlert (if \<not> startsWith ''image/'' (file_type f)
                                  then ''Please select an image file''
                                  else ''Image must be smaller than 5MB'')])
      \<and> fst (selectFile rd f (uploading, app)) = (uploading, app))"
  by (auto simp: handleFileSelect_def selectFile_def handlePhotoSelect_def data_url_payload)

theorem handleFileSelect_validation_witness:
  "fst (selectFile (Loaded ''data:image/png;base64,iVBORw0KGgo='') sample_file (False, initial_app))
     = (False, initial_app\<lparr>photo := Some sample_photo\<rparr>)
   \<and> at_index (split_on CHR '','' ''data:image/png;base64,iVBORw0KGgo='') 1 = Some ''iVBORw0KGgo=''
   \<and> selectFile (Loaded ''data:image/png;base64,iVBORw0KGgo='')
        (sample_file\<lparr>file_size := 5 * 1024 * 1024 + 1\<rparr>)
        (False, initial_app\<lparr>photo := Some sample_photo\<rparr>)
     = ((False, initial_app\<lparr>photo := Some sample_photo\<rparr>),
        [UploadAlert ''Image must be smaller than 5MB''])
   \<and> selectFile (Loaded ''data:text/plain;base64,aGk='')
        (sample_file\<lparr>file_type := ''text/plain''\<rparr>)
        (False, initial_app\<lparr>photo := Some sample_photo\<rparr>)
     = ((False, initial_app\<lparr>photo := Some sample_photo\<rparr>),
        [UploadAlert ''Please select an image file''])"
  using
    handleFileSelect_validation [of sample_file "''data:image/png;base64,iVBORw0KGgo=''" False
      initial_app "Loaded ''data:image/png;base64,iVBORw0KGgo=''"]
    handleFileSelect_validation [of "sample_file\<lparr>file_size := 5 * 1024 * 1024 + 1\<rparr>"
      "''data:image/png;base64,iVBORw0KGgo=''" False "initial_app\<lparr>photo := Some sample_photo\<rparr>"
      "Loaded ''data:image/png;base64,iVBORw0KGgo=''"]
    handleFileSelect_validation [of "sample_file\<lparr>file_type := ''text/plain''\<rparr>"
      "''data:text/plain;base64,aGk=''" False "initial_app\<lparr>photo := Some sample_photo\<rparr>"
      "Loaded ''data:text/plain;base64,aGk=''"]
  by (simp add: selectFile_def handleFileSelect_def handlePhotoSelect_def sample_file_def
      sample_photo_def startsWith_def at_index_def initial_app_def)

subsection \<open>Speech results\<close>

lemma collect_transcripts_eq:
  "collect_transcripts rs (i, f) =
     (i @ concat (map transcript (filter (\<lambda>r. \<not> isFinal r) rs)),
      f @ concat (map transcript (filter isFinal rs)))"
  by (induction rs arbitrary: i f) auto

text \<open>
  C8. On a result event, the transcripts of the final results from \<^verbatim>\<open>resultIndex\<close> on are
  joined; when that text is not empty, the question becomes the old question, one space,
  and that text, and the transcripts of the interim results are nowhere in it. When no
  final text came, the question is unchanged and the interim text is only shown.
\<close>

theorem speech_event_commits_final_only:
  "(concat (map transcript (filter isFinal (drop resultIndex results))) \<noteq> [] \<longrightarrow>
      speech_event resultIndex results app =
        (concat (map transcript (filter isFinal (drop resultIndex results))),
         app\<lparr>questionText := questionText app @ '' ''
               @ concat (map transcript (filter isFinal (drop resultIndex results)))\<rparr>))
   \<and> (concat (map transcript (filter isFinal (drop resultIndex results))) = [] \<longrightarrow>
      speech_event resultIndex results app =
        (concat (map transcript (filter (\<lambda>r. \<not> isFinal r) (drop resultIndex results))), app))"
  by (simp add: speech_event_def onresult_def collect_transcripts_eq)

theorem speech_event_commits_final_only_witness:
  "speech_event 1
      [\<lparr>isFinal = True, transcript = ''old''\<rparr>, \<lparr>isFinal = True, transcript = ''is this ''\<rparr>,
       \<lparr>isFinal = False, transcript = ''appro''\<rparr>, \<lparr>isFinal = True, transcript = ''formal''\<rparr>]
      (initial_analysis_app\<lparr>questionText := ''How do I look?''\<rparr>)
     = (''is this formal'',
        initial_analysis_app\<lparr>questionText := ''How do I look? is this formal''\<rparr>)
   \<and> speech_event 0 [\<lparr>isFinal = False, transcript = ''is th''\<rparr>]
      (initial_analysis_app\<lparr>questionText := ''How do I look?''\<rparr>)
     = (''is th'', initial_analysis_app\<lparr>questionText := ''How do I look?''\<rparr>)"
  using
    speech_event_commits_final_only [of 1
      "[\<lparr>isFinal = True, transcript = ''old''\<rparr>, \<lparr>isFinal = True, transcript = ''is this ''\<rparr>,
       \<lparr>isFinal = False, transcript = ''appro''\<rparr>, \<lparr>isFinal = True, transcript = ''formal''\<rparr>]"
      "initial_analysis_app\<lparr>questionText := ''How do I look?''\<rparr>"]
    speech_event_commits_final_only [of 0 "[\<lparr>isFinal = False, transcript = ''is th''\<rparr>]"
      "initial_analysis_app\<lparr>questionText := ''How do I look?''\<rparr>"]
  by (simp add: initial_analysis_app_def)

subsection \<open>Dropped URLs\<close>

lemma replace_str_prefix: "replace_str p r (p @ s) = r @ s"
proof (cases "p @ s")
  case Nil
  then show ?thesis by simp
next
  case (Cons c cs)
  have "startsWith p (c # cs)" using Cons [symmetric] by (simp add: startsWith_def)
  then have "replace_str p r (c # cs) = r @ drop (length p) (c # cs)" by simp
  moreover have "drop (length p) (c # cs) = s" using Cons [symmetric] by simp
  ultimately show ?thesis using Cons by simp
qed

lemma replace_str_absent:
  "(\<nexists>a b. s = a @ p @ b) \<Longrightarrow> replace_str p r s = s"
proof (induction s)
  case Nil
  then have "p \<noteq> []" by auto
  then show ?case by simp
next
  case (Cons c cs)
  have ns: "\<not> startsWith p (c # cs)"
  proof
    assume "startsWith p (c # cs)"
    then have "c # cs = [] @ p @ drop (length p) (c # cs)"
      unfolding startsWith_def by (metis append_Nil append_take_drop_id)
    with Cons.prems show False by blast
  qed
  have "\<nexists>a b. cs = a @ p @ b"
  proof
    assume "\<exists>a b. cs = a @ p @ b"
    then obtain a b where "cs = a @ p @ b" by blast
    then have "c # cs = (c # a) @ p @ b" by simp
    with Cons.prems show False by blast
  qed
  with Cons.IH ns show ?case by simp
qed

text \<open>
  C3, as the code has it. A dropped text that is empty or does not start with \<^verbatim>\<open>http\<close> is
  ignored, whether it is a URL or not: the list is unchanged and nothing is raised. A
  text that starts with \<^verbatim>\<open>http\<close> and that the URL parser accepts gives its host name; when
  the host name starts with \<^verbatim>\<open>www.\<close>, or holds no \<^verbatim>\<open>www.\<close> at all, the host name without
  that prefix is appended as a custom store, unless an entry of the list has it as url
  already, and then the list is unchanged.
\<close>

theorem handleUrlDrop_by_design:
  "(u = [] \<or> \<not> startsWith ''http'' u \<longrightarrow> handleUrlDrop hostname u ds = Inr ds)
   \<and> (u \<noteq> [] \<and> startsWith ''http'' u \<and> hostname u = Some h
        \<and> (h = ''www.'' @ dmn \<or> h = dmn \<and> (\<nexists>a b. h = a @ ''www.'' @ b)) \<longrightarrow>
      handleUrlDrop hostname u ds =
        Inr (if dmn \<in> url ` set ds then ds
             else ds @ [\<lparr>name = toUpperCase (take 1 dmn) @ drop 1 dmn, url = dmn,
                          icon = [0x1F310], custom = True\<rparr>]))"
proof (intro conjI impI)
  assume "u = [] \<or> \<not> startsWith ''http'' u"
  then show "handleUrlDrop hostname u ds = Inr ds" by (auto simp: handleUrlDrop_def)
next
  assume a: "u \<noteq> [] \<and> startsWith ''http'' u \<and> hostname u = Some h
        \<and> (h = ''www.'' @ dmn \<or> h = dmn \<and> (\<nexists>a b. h = a @ ''www.'' @ b))"
  then have d: "replace_str ''www.'' [] h = dmn"
    using replace_str_prefix [of "''www.''" "[]" dmn] replace_str_absent [of h "''www.''" "[]"]
    by auto
  have f: "(find (\<lambda>s. url s = dmn) ds = None) = (dmn \<notin> url ` set ds)"
    by (rule find_None_image)
  show "handleUrlDrop hostname u ds =
        Inr (if dmn \<in> url ` set ds then ds
             else ds @ [\<lparr>name = toUpperCase (take 1 dmn) @ drop 1 dmn, url = dmn,
                          icon = [0x1F310], custom = True\<rparr>])"
    using a d f by (simp add: handleUrlDrop_def Let_def)
qed

lemma toUpperCase_samples: "toUpperCase ''e'' = ''E''" "toUpperCase ''z'' = ''Z''"
  by code_simp+

theorem handleUrlDrop_by_design_witness:
  "handleUrlDrop sample_hostname ''www.etsy.com'' [] = Inr []
   \<and> handleUrlDrop sample_hostname ''https://www.etsy.com/shop'' []
     = Inr [\<lparr>name = ''Etsy.com'', url = ''etsy.com'', icon = [0x1F310], custom = True\<rparr>]
   \<and> handleUrlDrop sample_hostname ''https://www.etsy.com/shop''
        [\<lparr>name = ''Etsy.com'', url = ''etsy.com'', icon = [0x1F310], custom = True\<rparr>]
     = Inr [\<lparr>name = ''Etsy.com'', url = ''etsy.com'', icon = [0x1F310], custom = True\<rparr>]
   \<and> handleUrlDrop sample_hostname ''https://zara.com/'' []
     = Inr [\<lparr>name = ''Zara.com'', url = ''zara.com'', icon = [0x1F310], custom = True\<rparr>]"
  using
    handleUrlDrop_by_design [where u = "''www.etsy.com''" and hostname = sample_hostname
      and ds = "[]"]
    handleUrlDrop_by_design [where u = "''https://www.etsy.com/shop''"
      and hostname = sample_hostname and h = "''www.etsy.com''" and dmn = "''etsy.com''"
      and ds = "[]"]
    handleUrlDrop_by_design [where u = "''https://www.etsy.com/shop''"
      and hostname = sample_hostname and h = "''www.etsy.com''" and dmn = "''etsy.com''"
      and ds = "[\<lparr>name = ''Etsy.com'', url = ''etsy.com'', icon = [0x1F310], custom = True\<rparr>]"]
  by (simp add: handleUrlDrop_def sample_hostname_def startsWith_def toUpperCase_samples
      Let_def)

text \<open>
  The claim fails on a well-formed URL of another scheme, which is ignored and not
  appended, and on the malformed \<^verbatim>\<open>http://\<close>, where the constructor of the URL throws and
  the handler does not complete.
\<close>

theorem handleUrlDrop_by_design_counterexample:
  "sample_hostname ''ftp://files.example.com/a'' = Some ''files.example.com''
   \<and> handleUrlDrop sample_hostname ''ftp://files.example.com/a'' [] = Inr []
   \<and> sample_hostname ''http://'' = None
   \<and> handleUrlDrop sample_hostname ''http://'' [] = Inl TypeError"
  by (simp add: handleUrlDrop_def sample_hostname_def startsWith_def)

subsection \<open>The sort of the renderer\<close>





















end
